theory Spec2Isabelle
  imports Main "HOL-Library.Word"
begin

section \<open>Mark granularity of MergeTree data parts\<close>

text \<open>
  A shallow embedding of \<^verbatim>\<open>src/Storages/MergeTree/MergeTreeIndexGranularity.cpp\<close>:
  the policy function \<^verbatim>\<open>computeIndexGranularityForBlock\<close>, the factory
  \<^verbatim>\<open>createMergeTreeIndexGranularity\<close> and the non-virtual methods of the base class
  \<^verbatim>\<open>MergeTreeIndexGranularity\<close>.

  \<^verbatim>\<open>size_t\<close> is a 64-bit unsigned integer: addition and subtraction wrap around,
  comparison and division are unsigned.
\<close>

type_synonym size_t = "64 word"

text \<open>
  What a call can end in other than a value. \<^verbatim>\<open>Exception(ErrorCodes::LOGICAL_ERROR, msg)\<close>
  is \<open>LOGICAL_ERROR msg\<close>; an exception with another code, thrown by an implementation
  of the interface, is \<open>OTHER_EXCEPTION msg\<close>. An unsigned division whose divisor is
  zero has no defined result in C++ (on x86-64 the instruction traps), so the model stops
  there with \<open>DIVISION_BY_ZERO\<close>.
\<close>

datatype error = LOGICAL_ERROR string | OTHER_EXCEPTION string | DIVISION_BY_ZERO

subsection \<open>computeIndexGranularityForBlock\<close>

text \<open>The operator \<^verbatim>\<open>/\<close> on \<^verbatim>\<open>size_t\<close>, with the undefined case made a result.\<close>

definition div_size_t :: "size_t \<Rightarrow> size_t \<Rightarrow> error + size_t" where
  "div_size_t a b = (if b = 0 then Inl DIVISION_BY_ZERO else Inr (a div b))"

text \<open>
  Lines 83 to 105: the value of \<^verbatim>\<open>index_granularity_for_block\<close> after the first
  \<^verbatim>\<open>if\<close>/\<^verbatim>\<open>else\<close>, before it is clamped and floored.
\<close>

definition index_granularity_for_block ::
  "size_t \<Rightarrow> size_t \<Rightarrow> size_t \<Rightarrow> size_t \<Rightarrow> bool \<Rightarrow> bool \<Rightarrow> error + size_t" where
  "index_granularity_for_block rows_in_block bytes_in_block index_granularity_bytes
      fixed_index_granularity_rows blocks_are_granules can_use_adaptive_index_granularity =
    (if \<not> can_use_adaptive_index_granularity then Inr fixed_index_granularity_rows
     else if blocks_are_granules then Inr rows_in_block
     else if bytes_in_block \<ge> index_granularity_bytes then
       (case div_size_t bytes_in_block index_granularity_bytes of
          Inl e \<Rightarrow> Inl e
        | Inr granules_in_block \<Rightarrow> div_size_t rows_in_block granules_in_block)
     else
       (case div_size_t bytes_in_block rows_in_block of
          Inl e \<Rightarrow> Inl e
        | Inr q \<Rightarrow>
            (let size_of_row_in_bytes = max q 1
             in div_size_t index_granularity_bytes size_of_row_in_bytes)))"

text \<open>Lines 75 to 118: the whole function, with the clamp (line 110) and the floor (line 114).\<close>

definition computeIndexGranularityForBlock ::
  "size_t \<Rightarrow> size_t \<Rightarrow> size_t \<Rightarrow> size_t \<Rightarrow> bool \<Rightarrow> bool \<Rightarrow> error + size_t" where
  "computeIndexGranularityForBlock rows_in_block bytes_in_block index_granularity_bytes
      fixed_index_granularity_rows blocks_are_granules can_use_adaptive_index_granularity =
    (case index_granularity_for_block rows_in_block bytes_in_block index_granularity_bytes
            fixed_index_granularity_rows blocks_are_granules can_use_adaptive_index_granularity of
       Inl e \<Rightarrow> Inl e
     | Inr g \<Rightarrow>
         (let clamped = (if \<not> blocks_are_granules then min fixed_index_granularity_rows g else g)
          in Inr (if clamped = 0 then 1 else clamped)))"

text \<open>
  The inputs on which one of the two unguarded divisions (lines 97 and 102) has a zero
  divisor.
\<close>

definition divides_by_zero :: "size_t \<Rightarrow> size_t \<Rightarrow> size_t \<Rightarrow> bool \<Rightarrow> bool \<Rightarrow> bool" where
  "divides_by_zero rows_in_block bytes_in_block index_granularity_bytes
      blocks_are_granules can_use_adaptive_index_granularity =
    (can_use_adaptive_index_granularity \<and> \<not> blocks_are_granules \<and>
     (index_granularity_bytes = 0 \<or>
      (bytes_in_block < index_granularity_bytes \<and> rows_in_block = 0)))"

subsection \<open>The interface MergeTreeIndexGranularity\<close>

text \<open>
  \<^verbatim>\<open>MergeTreeIndexGranularity\<close> is an abstract class. Its virtual methods have no body
  in the file under study, so an implementation is a record of functions over the
  implementation's own state \<open>'s\<close>, and the methods of the base class are written once,
  for every such record. The signatures are those that
  \<^verbatim>\<open>MergeTreeIndexGranularityConstant.h\<close> overrides. The \<^verbatim>\<open>const\<close> methods read the
  state; \<^verbatim>\<open>appendMark\<close> and \<^verbatim>\<open>adjustLastMark\<close> return the state they leave behind
  together with their outcome, also when they throw. Methods that take a mark index can
  fail on it. Only the methods that the base class calls, and \<^verbatim>\<open>getTotalRows\<close>, are
  fields.

  \<^verbatim>\<open>empty()\<close> is declared in \<^verbatim>\<open>MergeTreeIndexGranularity.h\<close>, which is not among the
  sources; it is a field of the record as well (\<open>empty_table\<close>), so that nothing is
  assumed about it.
\<close>

text \<open>
  Modelled from the spec: \<^verbatim>\<open>MarkRange\<close>, whose header is not among the sources. It is
  the half-open interval of mark indices of section 3 of the specification, with the two
  members \<^verbatim>\<open>begin\<close> and \<^verbatim>\<open>end\<close> that line 27 reads (here \<open>range_begin\<close> and
  \<open>range_end\<close>). \<^verbatim>\<open>MarkRanges\<close> is a sequence of them.
\<close>

record MarkRange =
  range_begin :: size_t
  range_end :: size_t

record 's MergeTreeIndexGranularity =
  getRowsCountInRange :: "'s \<Rightarrow> size_t \<Rightarrow> size_t \<Rightarrow> error + size_t"
  getMarksCount :: "'s \<Rightarrow> size_t"
  getTotalRows :: "'s \<Rightarrow> size_t"
  getMarkRows :: "'s \<Rightarrow> size_t \<Rightarrow> error + size_t"
  hasFinalMark :: "'s \<Rightarrow> bool"
  empty_table :: "'s \<Rightarrow> bool"
  appendMark :: "'s \<Rightarrow> size_t \<Rightarrow> (error + unit) \<times> 's"
  adjustLastMark :: "'s \<Rightarrow> size_t \<Rightarrow> (error + unit) \<times> 's"

text \<open>Lines 25 to 28: the overload of \<^verbatim>\<open>getRowsCountInRange\<close> that takes a \<^verbatim>\<open>MarkRange\<close>.\<close>

definition getRowsCountInRange_MarkRange ::
  "'s MergeTreeIndexGranularity \<Rightarrow> 's \<Rightarrow> MarkRange \<Rightarrow> error + size_t" where
  "getRowsCountInRange_MarkRange tbl s mark_range =
     getRowsCountInRange tbl s (range_begin mark_range) (range_end mark_range)"

text \<open>
  Lines 30 to 36. The loop over \<^verbatim>\<open>ranges\<close> carries \<^verbatim>\<open>total\<close> (here \<open>total'\<close>);
  an exception of a call leaves the loop.
\<close>

fun getRowsCountInRanges_loop ::
  "'s MergeTreeIndexGranularity \<Rightarrow> 's \<Rightarrow> size_t \<Rightarrow> MarkRange list \<Rightarrow> error + size_t" where
  "getRowsCountInRanges_loop tbl s total' [] = Inr total'"
| "getRowsCountInRanges_loop tbl s total' (mark_range # ranges) =
     (case getRowsCountInRange_MarkRange tbl s mark_range of
        Inl e \<Rightarrow> Inl e
      | Inr rows \<Rightarrow> getRowsCountInRanges_loop tbl s (total' + rows) ranges)"

definition getRowsCountInRanges ::
  "'s MergeTreeIndexGranularity \<Rightarrow> 's \<Rightarrow> MarkRange list \<Rightarrow> error + size_t" where
  "getRowsCountInRanges tbl s ranges = getRowsCountInRanges_loop tbl s 0 ranges"

text \<open>Lines 38 to 44. \<^verbatim>\<open>total - hasFinalMark()\<close> subtracts the \<^verbatim>\<open>bool\<close> as 0 or 1.\<close>

definition getMarksCountWithoutFinal :: "'s MergeTreeIndexGranularity \<Rightarrow> 's \<Rightarrow> size_t" where
  "getMarksCountWithoutFinal tbl s =
     (let total' = getMarksCount tbl s
      in if total' = 0 then total'
         else total' - (if hasFinalMark tbl s then 1 else 0))"

text \<open>Lines 46 to 49. The subtraction is on \<^verbatim>\<open>size_t\<close>: it wraps when there is no mark.\<close>

definition getLastMarkRows :: "'s MergeTreeIndexGranularity \<Rightarrow> 's \<Rightarrow> error + size_t" where
  "getLastMarkRows tbl s = getMarkRows tbl s (getMarksCount tbl s - 1)"

text \<open>Lines 51 to 57.\<close>

definition getLastNonFinalMarkRows :: "'s MergeTreeIndexGranularity \<Rightarrow> 's \<Rightarrow> error + size_t" where
  "getLastNonFinalMarkRows tbl s =
     (case getLastMarkRows tbl s of
        Inl e \<Rightarrow> Inl e
      | Inr last_mark_rows \<Rightarrow>
          if last_mark_rows \<noteq> 0 then Inr last_mark_rows
          else getMarkRows tbl s (getMarksCount tbl s - 2))"

text \<open>
  Lines 59 to 73. The result is the outcome of the call and the state of the table after
  it. The argument of \<^verbatim>\<open>adjustLastMark\<close> is evaluated before the call, so a failure
  of \<^verbatim>\<open>getLastMarkRows\<close> leaves the table as it was.
\<close>

definition addRowsToLastMark ::
  "'s MergeTreeIndexGranularity \<Rightarrow> 's \<Rightarrow> size_t \<Rightarrow> (error + unit) \<times> 's" where
  "addRowsToLastMark tbl s rows_count =
     (if hasFinalMark tbl s then (Inl (LOGICAL_ERROR ''Cannot add rows to final mark''), s)
      else if empty_table tbl s then appendMark tbl s rows_count
      else (case getLastMarkRows tbl s of
              Inl e \<Rightarrow> (Inl e, s)
            | Inr last_mark_rows \<Rightarrow> adjustLastMark tbl s (last_mark_rows + rows_count)))"

subsection \<open>createMergeTreeIndexGranularity\<close>

text \<open>
  Modelled from the spec: the types of the arguments, \<^verbatim>\<open>MergeTreeSettings\<close> and
  \<^verbatim>\<open>MergeTreeIndexGranularityInfo\<close> with its mark type, whose headers are not among the
  sources. They are the configuration inputs and the part-format input of section 6 of
  the specification, with the members that lines 127 to 138 read. Of the part types only
  the comparison with \<^verbatim>\<open>MergeTreeDataPartType::Compact\<close> matters.
\<close>

datatype MergeTreeDataPartType = Wide | Compact | Unknown

record MarkType =
  adaptive :: bool
  part_type :: MergeTreeDataPartType

record MergeTreeIndexGranularityInfo =
  mark_type :: MarkType

record MergeTreeSettings =
  index_granularity :: size_t
  index_granularity_bytes :: size_t
  use_const_adaptive_granularity :: bool

text \<open>
  The object that the factory makes, named by the constructor call:
  \<^verbatim>\<open>std::make_shared<MergeTreeIndexGranularityAdaptive>()\<close>, the table without marks, or
  \<^verbatim>\<open>std::make_shared<MergeTreeIndexGranularityConstant>(computed_granularity)\<close>.
\<close>

datatype MergeTreeIndexGranularityPtr =
  MergeTreeIndexGranularityAdaptive
| MergeTreeIndexGranularityConstant size_t

text \<open>Lines 120 to 143.\<close>

definition createMergeTreeIndexGranularity ::
  "size_t \<Rightarrow> size_t \<Rightarrow> MergeTreeSettings \<Rightarrow> MergeTreeIndexGranularityInfo \<Rightarrow> bool
     \<Rightarrow> error + MergeTreeIndexGranularityPtr" where
  "createMergeTreeIndexGranularity rows_in_block bytes_in_block settings info blocks_are_granules =
     (let use_adaptive_granularity = adaptive (mark_type info);
          use_const_adaptive = use_const_adaptive_granularity settings;
          is_compact_part = (part_type (mark_type info) = Compact)
      in if blocks_are_granules \<or> is_compact_part \<or> (use_adaptive_granularity \<and> \<not> use_const_adaptive)
         then Inr MergeTreeIndexGranularityAdaptive
         else (case computeIndexGranularityForBlock rows_in_block bytes_in_block
                      (index_granularity_bytes settings) (index_granularity settings)
                      blocks_are_granules use_adaptive_granularity of
                 Inl e \<Rightarrow> Inl e
               | Inr computed_granularity \<Rightarrow>
                   Inr (MergeTreeIndexGranularityConstant computed_granularity)))"

subsection \<open>Implementations of the interface\<close>

text \<open>
  Modelled from the spec: the adaptive table, whose class
  \<^verbatim>\<open>MergeTreeIndexGranularityAdaptive\<close> is not among the sources. Following section 4.4
  of the specification its state is the sequence of per-mark row counts;
  \<^verbatim>\<open>appendMark\<close> pushes an entry, \<^verbatim>\<open>adjustLastMark\<close> overwrites the last one, a mark
  index outside the sequence is a logical error (section 7), the final mark is a last
  mark of zero rows (section 3). Where the specification is silent (\<^verbatim>\<open>adjustLastMark\<close>
  without a mark, a range that ends before it begins) the table answers with a logical
  error and with 0 rows. It is the table on which the theorems below are instantiated.
\<close>

definition adaptive_table :: "size_t list MergeTreeIndexGranularity" where
  "adaptive_table =
     \<lparr> getRowsCountInRange = (\<lambda>marks b e.
         if unat e \<le> length marks
         then Inr (sum_list (take (unat e - unat b) (drop (unat b) marks)))
         else Inl (LOGICAL_ERROR ''Mark range is out of the table'')),
       getMarksCount = (\<lambda>marks. of_nat (length marks)),
       getTotalRows = (\<lambda>marks. sum_list marks),
       getMarkRows = (\<lambda>marks i.
         if unat i < length marks then Inr (marks ! unat i)
         else Inl (LOGICAL_ERROR ''Mark index is out of the table'')),
       hasFinalMark = (\<lambda>marks. marks \<noteq> [] \<and> last marks = 0),
       empty_table = (\<lambda>marks. marks = []),
       appendMark = (\<lambda>marks rows_count. (Inr (), marks @ [rows_count])),
       adjustLastMark = (\<lambda>marks rows_count.
         if marks = [] then (Inl (LOGICAL_ERROR ''No mark to adjust''), marks)
         else (Inr (), butlast marks @ [rows_count])) \<rparr>"

text \<open>
  Modelled from the spec: the constant table, whose header
  \<^verbatim>\<open>MergeTreeIndexGranularityConstant.h\<close> declares the four members and
  \<^verbatim>\<open>hasFinalMark()\<close> (line 30, which returns \<^verbatim>\<open>has_final_mark\<close>) and whose other
  methods have their bodies in a file that is not among the sources. Following sections 3
  and 4.3 of the specification, every mark before the last data mark has
  \<^verbatim>\<open>constant_granularity\<close> rows, the last data mark has \<^verbatim>\<open>last_mark_granularity\<close>
  rows, the final mark is one more mark of zero rows, and a mark index outside the table
  is a logical error (section 7). Where the specification is silent, a mark of zero rows
  that is appended is the final mark, and a call that the four members cannot follow is a
  logical error. The members are independent: a state is whatever the constructor of
  line 19 is given, so the last data mark can have zero rows without a final mark.
\<close>

record MergeTreeIndexGranularityConstant_members =
  constant_granularity :: size_t
  last_mark_granularity :: size_t
  num_marks_without_final :: size_t
  has_final_mark :: bool

definition constant_table :: "MergeTreeIndexGranularityConstant_members MergeTreeIndexGranularity" where
  "constant_table =
     \<lparr> getRowsCountInRange = (\<lambda>m b e.
         let total_rows =
               (if num_marks_without_final m = 0 then 0
                else (num_marks_without_final m - 1) * constant_granularity m
                       + last_mark_granularity m);
             starting_row = (\<lambda>i. if i < num_marks_without_final m
                                    then i * constant_granularity m else total_rows)
         in if e \<le> num_marks_without_final m + (if has_final_mark m then 1 else 0)
            then Inr (if b \<le> e then starting_row e - starting_row b else 0)
            else Inl (LOGICAL_ERROR ''Mark range is out of the table'')),
       getMarksCount = (\<lambda>m. num_marks_without_final m + (if has_final_mark m then 1 else 0)),
       getTotalRows = (\<lambda>m.
         if num_marks_without_final m = 0 then 0
         else (num_marks_without_final m - 1) * constant_granularity m + last_mark_granularity m),
       getMarkRows = (\<lambda>m i.
         if i < num_marks_without_final m
         then Inr (if i + 1 = num_marks_without_final m then last_mark_granularity m
                   else constant_granularity m)
         else if has_final_mark m \<and> i = num_marks_without_final m then Inr 0
         else Inl (LOGICAL_ERROR ''Mark index is out of the table'')),
       hasFinalMark = (\<lambda>m. has_final_mark m),
       empty_table = (\<lambda>m. num_marks_without_final m + (if has_final_mark m then 1 else 0) = 0),
       appendMark = (\<lambda>m rows_count.
         if has_final_mark m
         then (Inl (LOGICAL_ERROR ''Cannot append mark after final''), m)
         else if rows_count = 0 then (Inr (), m\<lparr>has_final_mark := True\<rparr>)
         else if num_marks_without_final m \<noteq> 0
                 \<and> last_mark_granularity m \<noteq> constant_granularity m
         then (Inl (LOGICAL_ERROR ''Granularity is constant''), m)
         else (Inr (), m\<lparr>num_marks_without_final := num_marks_without_final m + 1,
                            last_mark_granularity := rows_count\<rparr>)),
       adjustLastMark = (\<lambda>m rows_count.
         if has_final_mark m \<or> num_marks_without_final m = 0
         then (Inl (LOGICAL_ERROR ''No mark to adjust''), m)
         else (Inr (), m\<lparr>last_mark_granularity := rows_count\<rparr>)) \<rparr>"


text \<open>
  What section 4.2 of the specification asks of the index arguments, as predicates on an
  implementation in a state: \<^verbatim>\<open>getMarkRows\<close> answers exactly the indices below
  \<^verbatim>\<open>getMarksCount()\<close>, and \<^verbatim>\<open>getRowsCountInRange\<close> answers every range whose bounds
  are within \<^verbatim>\<open>getMarksCount()\<close>.
\<close>

definition marks_range_checked :: "'s MergeTreeIndexGranularity \<Rightarrow> 's \<Rightarrow> bool" where
  "marks_range_checked tbl s =
     (\<forall>i. (\<exists>rows. getMarkRows tbl s i = Inr rows) = (i < getMarksCount tbl s))"

definition answers_ranges_within :: "'s MergeTreeIndexGranularity \<Rightarrow> 's \<Rightarrow> bool" where
  "answers_ranges_within tbl s =
     (\<forall>b e. b \<le> getMarksCount tbl s \<and> e \<le> getMarksCount tbl s \<longrightarrow>
        (\<exists>rows. getRowsCountInRange tbl s b e = Inr rows))"

definition within_marks :: "'s MergeTreeIndexGranularity \<Rightarrow> 's \<Rightarrow> MarkRange \<Rightarrow> bool" where
  "within_marks tbl s mark_range =
     (range_begin mark_range \<le> getMarksCount tbl s \<and> range_end mark_range \<le> getMarksCount tbl s)"

text \<open>
  Section 3 of the specification makes the final mark a mark of the table, appended after
  the last data mark: a table that reports a final mark holds at least that mark.
\<close>

definition final_mark_is_counted :: "'s MergeTreeIndexGranularity \<Rightarrow> 's \<Rightarrow> bool" where
  "final_mark_is_counted tbl s = (hasFinalMark tbl s \<longrightarrow> getMarksCount tbl s \<noteq> 0)"

section \<open>Properties of computeIndexGranularityForBlock\<close>

lemma word_one_le_iff: "(1 \<le> (w :: size_t)) = (w \<noteq> 0)"
  by (simp add: word_le_nat_alt unat_eq_0 Suc_le_eq unat_gt_0)

lemma index_granularity_for_block_fails:
  "divides_by_zero r b igb bag adp \<Longrightarrow>
   index_granularity_for_block r b igb f bag adp = Inl DIVISION_BY_ZERO"
  by (auto simp: divides_by_zero_def index_granularity_for_block_def div_size_t_def)

text \<open>
  On line 97 the quotient \<^verbatim>\<open>granules_in_block\<close> is at least 1 once the threshold is not
  zero, because the branch is entered with \<^verbatim>\<open>bytes_in_block >= index_granularity_bytes\<close>;
  so the division on line 98 is safe whenever the one on line 97 is.
\<close>

lemma granules_in_block_nonzero:
  fixes b igb :: size_t
  assumes "igb \<le> b" and "igb \<noteq> 0"
  shows "b div igb \<noteq> 0"
proof -
  have "0 < unat igb" using assms(2) by (simp add: unat_gt_0)
  moreover have "unat igb \<le> unat b" using assms(1) by (simp add: word_le_nat_alt)
  ultimately have "0 < unat b div unat igb" by (simp add: div_greater_zero_iff)
  then have "unat (b div igb) \<noteq> 0" by (simp add: unat_div)
  then show ?thesis by (simp add: unat_eq_0)
qed

lemma index_granularity_for_block_returns:
  "\<not> divides_by_zero r b igb bag adp \<Longrightarrow>
   \<exists>g. index_granularity_for_block r b igb f bag adp = Inr g"
  by (auto simp: divides_by_zero_def index_granularity_for_block_def div_size_t_def
        Let_def max_def granules_in_block_nonzero not_less)

text \<open>
  Claim C1, as the code has it. The claim says that every call returns a value of at least
  1, also with a zero \<^verbatim>\<open>index_granularity_bytes\<close> in adaptive mode. The code divides by
  \<^verbatim>\<open>index_granularity_bytes\<close> on line 97 and by \<^verbatim>\<open>rows_in_block\<close> on line 102 without a
  guard. What holds: the call divides by zero exactly on the inputs of \<open>divides_by_zero\<close>
  (adaptive mode, the block not forced to be one granule, and a zero threshold or a block
  without rows below the threshold); on every other input it returns, and the value is at
  least 1.
\<close>

theorem computeIndexGranularityForBlock_at_least_one:
  "(divides_by_zero r b igb bag adp \<longrightarrow>
      computeIndexGranularityForBlock r b igb f bag adp = Inl DIVISION_BY_ZERO) \<and>
   (\<not> divides_by_zero r b igb bag adp \<longrightarrow>
      (\<exists>g. computeIndexGranularityForBlock r b igb f bag adp = Inr g \<and> 1 \<le> g))"
proof (intro conjI impI)
  assume "divides_by_zero r b igb bag adp"
  then show "computeIndexGranularityForBlock r b igb f bag adp = Inl DIVISION_BY_ZERO"
    by (simp add: computeIndexGranularityForBlock_def index_granularity_for_block_fails)
next
  assume "\<not> divides_by_zero r b igb bag adp"
  then obtain g0 where "index_granularity_for_block r b igb f bag adp = Inr g0"
    using index_granularity_for_block_returns by blast
  then show "\<exists>g. computeIndexGranularityForBlock r b igb f bag adp = Inr g \<and> 1 \<le> g"
    by (simp add: computeIndexGranularityForBlock_def Let_def word_one_le_iff)
qed

text \<open>
  Both cases of the theorem at concrete inputs: a zero threshold, and the small-row
  example of section 8 of the specification (2 rows, 10 bytes, threshold 100, ceiling 50).
\<close>

theorem computeIndexGranularityForBlock_at_least_one_witness:
  "divides_by_zero 100 1000 0 False True \<and>
   computeIndexGranularityForBlock 100 1000 0 50 False True = Inl DIVISION_BY_ZERO \<and>
   \<not> divides_by_zero 2 10 100 False True \<and>
   computeIndexGranularityForBlock 2 10 100 50 False True = Inr 20 \<and> (1::size_t) \<le> 20"
  using computeIndexGranularityForBlock_at_least_one [of 100 1000 0 False True 50]
    computeIndexGranularityForBlock_at_least_one [of 2 10 100 False True 50]
  by (simp add: divides_by_zero_def computeIndexGranularityForBlock_def
        index_granularity_for_block_def div_size_t_def)

text \<open>
  Claim C1 as stated fails: with 100 rows, 1000 bytes, a threshold of 0 bytes, a ceiling of 50
  rows and adaptive mode, line 95 compares \<^verbatim>\<open>1000 >= 0\<close> and line 97 divides 1000 by 0.
\<close>

theorem zero_threshold_counterexample:
  "computeIndexGranularityForBlock 100 1000 0 50 False True = Inl DIVISION_BY_ZERO"
  by (simp add: computeIndexGranularityForBlock_def index_granularity_for_block_def div_size_t_def)

text \<open>
  Claim C2, as the code has it. The claim says that without \<^verbatim>\<open>blocks_are_granules\<close> the
  result never exceeds \<^verbatim>\<open>fixed_index_granularity_rows\<close>. The floor of line 114 comes after
  the clamp of line 111, so a ceiling of 0 gives 1. What holds: on every input without
  \<^verbatim>\<open>blocks_are_granules\<close> that does not divide by zero the call returns, and the value is
  at most the ceiling when the ceiling is at least 1, and is 1 when the ceiling is 0.
\<close>

theorem computeIndexGranularityForBlock_ceiling:
  "\<not> divides_by_zero r b igb False adp \<Longrightarrow>
   \<exists>g. computeIndexGranularityForBlock r b igb f False adp = Inr g \<and>
       (1 \<le> f \<longrightarrow> g \<le> f) \<and> (f = 0 \<longrightarrow> g = 1)"
proof -
  assume "\<not> divides_by_zero r b igb False adp"
  then obtain g0 where g0: "index_granularity_for_block r b igb f False adp = Inr g0"
    using index_granularity_for_block_returns by blast
  have "1 \<le> f \<Longrightarrow> (if min f g0 = 0 then 1 else min f g0) \<le> f"
    by simp
  then show ?thesis
    using g0 by (simp add: computeIndexGranularityForBlock_def Let_def)
qed

theorem computeIndexGranularityForBlock_ceiling_witness:
  "\<not> divides_by_zero 100 1000 100 False True \<and>
   computeIndexGranularityForBlock 100 1000 100 50 False True = Inr 10 \<and>
   (1::size_t) \<le> 50 \<and> (10::size_t) \<le> 50"
  using computeIndexGranularityForBlock_ceiling [of 100 1000 100 True 50]
  by (simp add: divides_by_zero_def computeIndexGranularityForBlock_def
        index_granularity_for_block_def div_size_t_def)

text \<open>
  Claim C2 as stated fails: with a ceiling of 0 rows (100 rows, 1000 bytes, threshold 100,
  adaptive mode) the clamp gives \<^verbatim>\<open>min(0, 10) = 0\<close>, the floor makes it 1, and 1 is above
  the ceiling.
\<close>

theorem zero_ceiling_counterexample:
  "computeIndexGranularityForBlock 100 1000 100 0 False True = Inr 1 \<and> \<not> (1::size_t) \<le> 0"
  by (simp add: computeIndexGranularityForBlock_def index_granularity_for_block_def div_size_t_def)

text \<open>
  Claim C6: with 100 rows, 1000 bytes, a threshold of 100 bytes, a ceiling of 50 rows, no
  \<^verbatim>\<open>blocks_are_granules\<close> and adaptive mode, the call takes the branch of line 95
  (\<^verbatim>\<open>1000 >= 100\<close>), computes \<^verbatim>\<open>granules_in_block = 1000 / 100 = 10\<close> and
  \<^verbatim>\<open>100 / 10 = 10\<close> rows for a granule, clamps to \<^verbatim>\<open>min(50, 10) = 10\<close> and returns 10.
\<close>

theorem computeIndexGranularityForBlock_example:
  "(100::size_t) \<le> 1000 \<and> div_size_t 1000 100 = Inr 10 \<and> div_size_t 100 10 = Inr 10 \<and>
   index_granularity_for_block 100 1000 100 50 False True = Inr 10 \<and>
   min (50::size_t) 10 = 10 \<and>
   computeIndexGranularityForBlock 100 1000 100 50 False True = Inr 10"
  by (simp add: computeIndexGranularityForBlock_def index_granularity_for_block_def div_size_t_def)

section \<open>Properties of the base class\<close>

lemma adaptive_table_simps:
  "getMarksCount adaptive_table marks = of_nat (length marks)"
  "getTotalRows adaptive_table marks = sum_list marks"
  "getMarkRows adaptive_table marks i =
     (if unat i < length marks then Inr (marks ! unat i)
      else Inl (LOGICAL_ERROR ''Mark index is out of the table''))"
  "hasFinalMark adaptive_table marks = (marks \<noteq> [] \<and> last marks = 0)"
  "empty_table adaptive_table marks = (marks = [])"
  "appendMark adaptive_table marks n = (Inr (), marks @ [n])"
  "adjustLastMark adaptive_table marks n =
     (if marks = [] then (Inl (LOGICAL_ERROR ''No mark to adjust''), marks)
      else (Inr (), butlast marks @ [n]))"
  "getRowsCountInRange adaptive_table marks b e =
     (if unat e \<le> length marks
      then Inr (sum_list (take (unat e - unat b) (drop (unat b) marks)))
      else Inl (LOGICAL_ERROR ''Mark range is out of the table''))"
  by (simp_all add: adaptive_table_def)

lemma constant_table_simps:
  "getMarksCount constant_table m = num_marks_without_final m + (if has_final_mark m then 1 else 0)"
  "getMarkRows constant_table m i =
     (if i < num_marks_without_final m
      then Inr (if i + 1 = num_marks_without_final m then last_mark_granularity m
                else constant_granularity m)
      else if has_final_mark m \<and> i = num_marks_without_final m then Inr 0
      else Inl (LOGICAL_ERROR ''Mark index is out of the table''))"
  "hasFinalMark constant_table m = has_final_mark m"
  by (simp_all add: constant_table_def)

text \<open>The index that \<^verbatim>\<open>getMarksCount() - 1\<close> wraps to when there is no mark.\<close>

lemma max_index: "(- 1 :: size_t) = 18446744073709551615"
  by simp

lemma unat_max_index: "unat (- 1 :: size_t) = 18446744073709551615"
  by (simp add: unsigned_minus_1_eq_mask mask_eq_exp_minus_1)

lemma last_index_in_range: "((c :: size_t) - 1 < c) = (c \<noteq> 0)"
  by unat_arith

lemma before_last_index_in_range: "((c :: size_t) - 2 < c) = (2 \<le> c)"
  by unat_arith

lemma without_final_at_least_one:
  assumes "1 \<le> getMarksCountWithoutFinal tbl s"
  shows "getMarksCount tbl s \<noteq> 0" and "hasFinalMark tbl s \<Longrightarrow> 2 \<le> getMarksCount tbl s"
proof -
  show nz: "getMarksCount tbl s \<noteq> 0"
    using assms by (auto simp: getMarksCountWithoutFinal_def Let_def)
  assume "hasFinalMark tbl s"
  with assms nz have "1 \<le> getMarksCount tbl s - 1"
    by (simp add: getMarksCountWithoutFinal_def Let_def)
  with nz show "2 \<le> getMarksCount tbl s"
    by unat_arith
qed

lemma adaptive_table_range_checked:
  "length marks < 2 ^ 64 \<Longrightarrow> marks_range_checked adaptive_table marks"
  by (simp add: marks_range_checked_def adaptive_table_simps word_less_nat_alt unat_of_nat)

lemma adaptive_table_final_mark_counted:
  "length marks < 2 ^ 64 \<Longrightarrow> final_mark_is_counted adaptive_table marks"
  by (auto simp: final_mark_is_counted_def adaptive_table_simps of_nat_0 word_of_nat_eq_0_iff
        dest: dvd_imp_le) 

text \<open>
  Claim C5: on every table whose final mark is one of its marks (a table that reports a
  final mark holds at least one mark), \<^verbatim>\<open>getMarksCountWithoutFinal()\<close> is
  \<^verbatim>\<open>getMarksCount()\<close> minus 1 if \<^verbatim>\<open>hasFinalMark()\<close> is true and
  \<^verbatim>\<open>getMarksCount()\<close> otherwise. The subtraction does not wrap: read as numbers, the
  result plus 1 for the final mark is \<^verbatim>\<open>getMarksCount()\<close>.
\<close>

theorem getMarksCountWithoutFinal_value:
  assumes "final_mark_is_counted tbl s"
  shows "getMarksCountWithoutFinal tbl s =
           (if hasFinalMark tbl s then getMarksCount tbl s - 1 else getMarksCount tbl s) \<and>
         unat (getMarksCountWithoutFinal tbl s) + (if hasFinalMark tbl s then 1 else 0) =
           unat (getMarksCount tbl s)"
proof (cases "hasFinalMark tbl s")
  case True
  with assms have nz: "getMarksCount tbl s \<noteq> 0"
    by (simp add: final_mark_is_counted_def)
  then have "unat (getMarksCount tbl s - 1) + 1 = unat (getMarksCount tbl s)"
    by unat_arith
  with True nz show ?thesis
    by (simp add: getMarksCountWithoutFinal_def Let_def)
next
  case False
  then show ?thesis
    by (simp add: getMarksCountWithoutFinal_def Let_def)
qed

text \<open>
  On the adaptive table: marks 3, 5 and a final mark; marks 3 and 5; and no mark, where
  the guard of line 41 answers. On the constant table: three data marks and a final mark.
\<close>

theorem getMarksCountWithoutFinal_value_witness:
  "final_mark_is_counted adaptive_table [3, 5, 0] \<and>
   hasFinalMark adaptive_table [3, 5, 0] \<and> getMarksCount adaptive_table [3, 5, 0] = 3 \<and>
   getMarksCountWithoutFinal adaptive_table [3, 5, 0] = 2 \<and>
   final_mark_is_counted adaptive_table [3, 5] \<and>
   \<not> hasFinalMark adaptive_table [3, 5] \<and>
   getMarksCountWithoutFinal adaptive_table [3, 5] = 2 \<and>
   final_mark_is_counted adaptive_table [] \<and>
   getMarksCountWithoutFinal adaptive_table [] = 0 \<and>
   final_mark_is_counted constant_table
     \<lparr>constant_granularity = 8192, last_mark_granularity = 100,
      num_marks_without_final = 3, has_final_mark = True\<rparr> \<and>
   getMarksCount constant_table
     \<lparr>constant_granularity = 8192, last_mark_granularity = 100,
      num_marks_without_final = 3, has_final_mark = True\<rparr> = 4 \<and>
   getMarksCountWithoutFinal constant_table
     \<lparr>constant_granularity = 8192, last_mark_granularity = 100,
      num_marks_without_final = 3, has_final_mark = True\<rparr> = 3"
proof -
  have hc: "final_mark_is_counted constant_table
     \<lparr>constant_granularity = 8192, last_mark_granularity = 100,
      num_marks_without_final = 3, has_final_mark = True\<rparr>"
    by (simp add: final_mark_is_counted_def constant_table_simps)
  have h3: "final_mark_is_counted adaptive_table [3, 5, 0]"
    by (rule adaptive_table_final_mark_counted) simp
  have h2: "final_mark_is_counted adaptive_table [3, 5]"
    by (rule adaptive_table_final_mark_counted) simp
  have h0: "final_mark_is_counted adaptive_table []"
    by (rule adaptive_table_final_mark_counted) simp
  show ?thesis
    using h3 h2 h0 hc getMarksCountWithoutFinal_value [OF h3]
      getMarksCountWithoutFinal_value [OF h2] getMarksCountWithoutFinal_value [OF h0]
      getMarksCountWithoutFinal_value [OF hc]
    by (simp add: adaptive_table_simps constant_table_simps)
qed

text \<open>
  On the adaptive table neither forwarded call fails, so there \<^verbatim>\<open>addRowsToLastMark\<close>
  fails exactly when the table has a final mark.
\<close>

lemma adaptive_table_last_mark_rows:
  assumes "marks \<noteq> []" and "length marks < 2 ^ 64"
  shows "getLastMarkRows adaptive_table marks = Inr (last marks)"
proof -
  have pos: "0 < length marks" using assms(1) by simp
  have "unat (of_nat (length marks) :: size_t) = length marks"
    using assms(2) by (simp add: unat_of_nat)
  then have nz: "(of_nat (length marks) :: size_t) \<noteq> 0"
    using pos by (metis unat_0 less_numeral_extra(3))
  have "unat ((of_nat (length marks) :: size_t) - 1) = length marks - 1"
    using nz \<open>unat (of_nat (length marks) :: size_t) = length marks\<close>
    by (simp add: unat_minus_one)
  then show ?thesis
    using pos assms(1) by (simp add: getLastMarkRows_def adaptive_table_simps last_conv_nth)
qed

lemma adaptive_table_fails_exactly_when_final:
  assumes "length marks < 2 ^ 64"
  shows "isl (fst (addRowsToLastMark adaptive_table marks n)) = hasFinalMark adaptive_table marks"
proof (cases "marks = []")
  case True
  then show ?thesis by (simp add: addRowsToLastMark_def adaptive_table_simps)
next
  case False
  with assms have "getLastMarkRows adaptive_table marks = Inr (last marks)"
    by (rule adaptive_table_last_mark_rows [rotated -1])
  with False show ?thesis
    by (simp add: addRowsToLastMark_def adaptive_table_simps)
qed




text \<open>
  Claim C9: on a table with a final mark \<^verbatim>\<open>addRowsToLastMark(n)\<close> throws before it calls
  a mutating method: the state after the call is the state before it, so
  \<^verbatim>\<open>getMarksCount()\<close>, \<^verbatim>\<open>getTotalRows()\<close>, every \<^verbatim>\<open>getMarkRows(i)\<close> and
  \<^verbatim>\<open>hasFinalMark()\<close> answer as before.
\<close>

theorem addRowsToLastMark_atomic:
  assumes "hasFinalMark tbl s"
  shows "addRowsToLastMark tbl s n = (Inl (LOGICAL_ERROR ''Cannot add rows to final mark''), s) \<and>
         getMarksCount tbl (snd (addRowsToLastMark tbl s n)) = getMarksCount tbl s \<and>
         getTotalRows tbl (snd (addRowsToLastMark tbl s n)) = getTotalRows tbl s \<and>
         (\<forall>i. getMarkRows tbl (snd (addRowsToLastMark tbl s n)) i = getMarkRows tbl s i) \<and>
         hasFinalMark tbl (snd (addRowsToLastMark tbl s n)) = hasFinalMark tbl s"
  using assms by (simp add: addRowsToLastMark_def)

theorem addRowsToLastMark_atomic_witness:
  "hasFinalMark adaptive_table [3, 5, 0] \<and>
   addRowsToLastMark adaptive_table [3, 5, 0] 7 =
     (Inl (LOGICAL_ERROR ''Cannot add rows to final mark''), [3, 5, 0]) \<and>
   getMarksCount adaptive_table (snd (addRowsToLastMark adaptive_table [3, 5, 0] 7)) = 3 \<and>
   getTotalRows adaptive_table (snd (addRowsToLastMark adaptive_table [3, 5, 0] 7)) = 8"
proof -
  have h: "hasFinalMark adaptive_table [3, 5, 0]"
    by (simp add: adaptive_table_simps)
  show ?thesis
    using h addRowsToLastMark_atomic [OF h, of 7] by (simp add: adaptive_table_simps)
qed

text \<open>
  Claim C7, as the code has it. The claim says that, on a table with at least one data
  mark, a last mark of zero rows is the final mark, so that the table has at least two
  marks and \<^verbatim>\<open>getMarksCount() - 2\<close> is the second-to-last mark. Lines 53 to 56 do not
  ask \<^verbatim>\<open>hasFinalMark()\<close>. What holds on a table with at least one data mark
  (\<^verbatim>\<open>getMarksCountWithoutFinal()\<close> is at least 1): the index \<^verbatim>\<open>getMarksCount() - 1\<close> is
  below \<^verbatim>\<open>getMarksCount()\<close>; the call returns \<^verbatim>\<open>getLastMarkRows()\<close> when that is not
  zero and otherwise the answer of \<^verbatim>\<open>getMarkRows(getMarksCount() - 2)\<close>; when the last
  mark of zero rows is the final mark, or when some mark of the table has rows, the table
  has at least two marks and that index is the second-to-last mark; when the last mark of
  zero rows is the only mark, the index wraps to 18446744073709551615, which is not below
  \<^verbatim>\<open>getMarksCount()\<close>.
\<close>

theorem getLastNonFinalMarkRows_value:
  assumes "1 \<le> getMarksCountWithoutFinal tbl s"
  shows "(\<forall>rows. getLastMarkRows tbl s = Inr rows \<and> rows \<noteq> 0 \<longrightarrow>
            getLastNonFinalMarkRows tbl s = Inr rows) \<and>
         (getLastMarkRows tbl s = Inr 0 \<longrightarrow>
            getLastNonFinalMarkRows tbl s = getMarkRows tbl s (getMarksCount tbl s - 2)) \<and>
         getMarksCount tbl s - 1 < getMarksCount tbl s \<and>
         (hasFinalMark tbl s \<longrightarrow>
            2 \<le> getMarksCount tbl s \<and> getMarksCount tbl s - 2 < getMarksCount tbl s) \<and>
         (getLastMarkRows tbl s = Inr 0 \<and> hasFinalMark tbl s \<longrightarrow>
            2 \<le> getMarksCount tbl s \<and> getMarksCount tbl s - 2 < getMarksCount tbl s \<and>
            getLastNonFinalMarkRows tbl s = getMarkRows tbl s (getMarksCount tbl s - 2)) \<and>
         (getLastMarkRows tbl s = Inr 0 \<and>
          (\<exists>i rows. i < getMarksCount tbl s \<and> getMarkRows tbl s i = Inr rows \<and> rows \<noteq> 0) \<longrightarrow>
            2 \<le> getMarksCount tbl s \<and> getMarksCount tbl s - 2 < getMarksCount tbl s \<and>
            getLastNonFinalMarkRows tbl s = getMarkRows tbl s (getMarksCount tbl s - 2)) \<and>
         (getLastMarkRows tbl s = Inr 0 \<and> \<not> 2 \<le> getMarksCount tbl s \<longrightarrow>
            getLastNonFinalMarkRows tbl s = getMarkRows tbl s 18446744073709551615 \<and>
            \<not> 18446744073709551615 < getMarksCount tbl s)"
proof -
  let ?c = "getMarksCount tbl s"
  note nz = without_final_at_least_one(1) [OF assms]
  note two = without_final_at_least_one(2) [OF assms]
  have zero: "getLastMarkRows tbl s = Inr 0 \<Longrightarrow>
      getLastNonFinalMarkRows tbl s = getMarkRows tbl s (?c - 2)"
    by (simp add: getLastNonFinalMarkRows_def)
  have other: "2 \<le> ?c"
    if z: "getLastMarkRows tbl s = Inr 0"
      and ex: "\<exists>i rows. i < ?c \<and> getMarkRows tbl s i = Inr rows \<and> rows \<noteq> 0"
  proof -
    from ex obtain i rows where i: "i < ?c" "getMarkRows tbl s i = Inr rows" "rows \<noteq> 0"
      by blast
    from z i(2,3) have "i \<noteq> ?c - 1"
      by (auto simp: getLastMarkRows_def)
    with i(1) show ?thesis by unat_arith
  qed
  have one: "?c - 2 = 18446744073709551615 \<and> \<not> 18446744073709551615 < ?c" if "\<not> 2 \<le> ?c"
  proof -
    from that nz have "?c = 1" by unat_arith
    then show ?thesis by simp
  qed
  show ?thesis
    using nz two zero other one
    by (auto simp: getLastNonFinalMarkRows_def last_index_in_range before_last_index_in_range)
qed

text \<open>
  On the adaptive table with marks 3, 5 and a final mark, and with marks 3 and 5; and on
  the constant table whose single data mark has zero rows.
\<close>

theorem getLastNonFinalMarkRows_value_witness:
  "1 \<le> getMarksCountWithoutFinal adaptive_table [3, 5, 0] \<and>
   hasFinalMark adaptive_table [3, 5, 0] \<and>
   getLastMarkRows adaptive_table [3, 5, 0] = Inr 0 \<and>
   getMarkRows adaptive_table [3, 5, 0] (getMarksCount adaptive_table [3, 5, 0] - 2) = Inr 5 \<and>
   getLastNonFinalMarkRows adaptive_table [3, 5, 0] = Inr 5 \<and>
   1 \<le> getMarksCountWithoutFinal adaptive_table [3, 5] \<and>
   getLastMarkRows adaptive_table [3, 5] = Inr 5 \<and>
   getLastNonFinalMarkRows adaptive_table [3, 5] = Inr 5 \<and>
   1 \<le> getMarksCountWithoutFinal constant_table
         \<lparr>constant_granularity = 8192, last_mark_granularity = 0,
          num_marks_without_final = 1, has_final_mark = False\<rparr> \<and>
   getLastMarkRows constant_table
         \<lparr>constant_granularity = 8192, last_mark_granularity = 0,
          num_marks_without_final = 1, has_final_mark = False\<rparr> = Inr 0 \<and>
   getLastNonFinalMarkRows constant_table
         \<lparr>constant_granularity = 8192, last_mark_granularity = 0,
          num_marks_without_final = 1, has_final_mark = False\<rparr> =
     getMarkRows constant_table
         \<lparr>constant_granularity = 8192, last_mark_granularity = 0,
          num_marks_without_final = 1, has_final_mark = False\<rparr> 18446744073709551615"
proof -
  let ?m = "\<lparr>constant_granularity = 8192, last_mark_granularity = 0,
          num_marks_without_final = 1, has_final_mark = False\<rparr>"
  have h1: "1 \<le> getMarksCountWithoutFinal adaptive_table [3, 5, 0]"
    by (simp add: getMarksCountWithoutFinal_def adaptive_table_simps)
  have h2: "1 \<le> getMarksCountWithoutFinal adaptive_table [3, 5]"
    by (simp add: getMarksCountWithoutFinal_def adaptive_table_simps)
  have h3: "1 \<le> getMarksCountWithoutFinal constant_table ?m"
    by (simp add: getMarksCountWithoutFinal_def constant_table_simps)
  have z: "getLastMarkRows constant_table ?m = Inr 0"
    by (simp add: getLastMarkRows_def constant_table_simps)
  show ?thesis
    using h1 h2 h3 z getLastNonFinalMarkRows_value [OF h1] getLastNonFinalMarkRows_value [OF h2]
      getLastNonFinalMarkRows_value [OF h3]
    by (simp add: getLastMarkRows_def adaptive_table_simps constant_table_simps)
qed

text \<open>
  Claim C7 as stated fails: the constant table with one data mark of zero rows and no
  final mark holds a data mark, its last mark has zero rows and is not the final mark, it
  has one mark and not two, and \<^verbatim>\<open>getLastNonFinalMarkRows()\<close> reads mark
  \<^verbatim>\<open>1 - 2\<close>, which is outside the table.
\<close>

theorem zero_row_data_mark_counterexample:
  "1 \<le> getMarksCountWithoutFinal constant_table
         \<lparr>constant_granularity = 8192, last_mark_granularity = 0,
          num_marks_without_final = 1, has_final_mark = False\<rparr> \<and>
   \<not> hasFinalMark constant_table
         \<lparr>constant_granularity = 8192, last_mark_granularity = 0,
          num_marks_without_final = 1, has_final_mark = False\<rparr> \<and>
   getMarksCount constant_table
         \<lparr>constant_granularity = 8192, last_mark_granularity = 0,
          num_marks_without_final = 1, has_final_mark = False\<rparr> = 1 \<and>
   getLastMarkRows constant_table
         \<lparr>constant_granularity = 8192, last_mark_granularity = 0,
          num_marks_without_final = 1, has_final_mark = False\<rparr> = Inr 0 \<and>
   getLastNonFinalMarkRows constant_table
         \<lparr>constant_granularity = 8192, last_mark_granularity = 0,
          num_marks_without_final = 1, has_final_mark = False\<rparr> =
     Inl (LOGICAL_ERROR ''Mark index is out of the table'')"
  by (simp add: getMarksCountWithoutFinal_def getLastNonFinalMarkRows_def getLastMarkRows_def
        constant_table_simps)

text \<open>
  Claim C10: \<^verbatim>\<open>getLastMarkRows()\<close> reads mark \<^verbatim>\<open>getMarksCount() - 1\<close>; without marks
  the subtraction wraps to 18446744073709551615, which is not below \<^verbatim>\<open>getMarksCount()\<close>.
  On an implementation whose \<^verbatim>\<open>getMarkRows\<close> answers exactly the indices below
  \<^verbatim>\<open>getMarksCount()\<close>, \<^verbatim>\<open>getLastMarkRows()\<close> returns exactly when there is at least one
  mark, and \<^verbatim>\<open>getLastNonFinalMarkRows()\<close>, when the last mark has no rows, returns exactly
  when there are at least two marks; without marks it fails as \<^verbatim>\<open>getLastMarkRows()\<close> does.
\<close>

theorem last_mark_preconditions:
  assumes "marks_range_checked tbl s"
  shows "(getMarksCount tbl s = 0 \<longrightarrow>
            getLastMarkRows tbl s = getMarkRows tbl s 18446744073709551615 \<and>
            \<not> (18446744073709551615 < getMarksCount tbl s)) \<and>
         (\<exists>rows. getLastMarkRows tbl s = Inr rows) = (1 \<le> getMarksCount tbl s) \<and>
         (getLastMarkRows tbl s = Inr 0 \<longrightarrow>
            (\<exists>rows. getLastNonFinalMarkRows tbl s = Inr rows) = (2 \<le> getMarksCount tbl s)) \<and>
         (getMarksCount tbl s = 0 \<longrightarrow> (\<exists>e. getLastNonFinalMarkRows tbl s = Inl e))"
proof (intro conjI impI)
  assume "getMarksCount tbl s = 0"
  then show "getLastMarkRows tbl s = getMarkRows tbl s 18446744073709551615"
    by (simp add: getLastMarkRows_def flip: max_index)
next
  assume "getMarksCount tbl s = 0"
  then show "\<not> (18446744073709551615 < getMarksCount tbl s)" by simp
next
  show "(\<exists>rows. getLastMarkRows tbl s = Inr rows) = (1 \<le> getMarksCount tbl s)"
    using assms
    by (simp add: marks_range_checked_def getLastMarkRows_def last_index_in_range word_one_le_iff)
next
  assume "getLastMarkRows tbl s = Inr 0"
  then show "(\<exists>rows. getLastNonFinalMarkRows tbl s = Inr rows) = (2 \<le> getMarksCount tbl s)"
    using assms
    by (simp add: marks_range_checked_def getLastNonFinalMarkRows_def before_last_index_in_range)
next
  assume "getMarksCount tbl s = 0"
  with assms have "\<not> (\<exists>rows. getLastMarkRows tbl s = Inr rows)"
    by (simp add: marks_range_checked_def getLastMarkRows_def)
  then obtain e where "getLastMarkRows tbl s = Inl e"
    by (cases "getLastMarkRows tbl s") auto
  then show "\<exists>e. getLastNonFinalMarkRows tbl s = Inl e"
    by (simp add: getLastNonFinalMarkRows_def)
qed

text \<open>
  On the adaptive table: without marks \<^verbatim>\<open>getLastMarkRows()\<close> fails; with the single mark
  of zero rows \<^verbatim>\<open>getLastNonFinalMarkRows()\<close> fails; with marks 3, 5 and a final mark both
  return.
\<close>

theorem last_mark_preconditions_witness:
  "marks_range_checked adaptive_table [] \<and> getMarksCount adaptive_table [] = 0 \<and>
   getLastMarkRows adaptive_table [] = Inl (LOGICAL_ERROR ''Mark index is out of the table'') \<and>
   getLastNonFinalMarkRows adaptive_table [] = Inl (LOGICAL_ERROR ''Mark index is out of the table'') \<and>
   marks_range_checked adaptive_table [0] \<and> getMarksCount adaptive_table [0] = 1 \<and>
   getLastMarkRows adaptive_table [0] = Inr 0 \<and>
   getLastNonFinalMarkRows adaptive_table [0] = Inl (LOGICAL_ERROR ''Mark index is out of the table'') \<and>
   marks_range_checked adaptive_table [3, 5, 0] \<and>
   getLastMarkRows adaptive_table [3, 5, 0] = Inr 0 \<and>
   getLastNonFinalMarkRows adaptive_table [3, 5, 0] = Inr 5"
proof -
  have h0: "marks_range_checked adaptive_table []"
    by (rule adaptive_table_range_checked) simp
  have h1: "marks_range_checked adaptive_table [0]"
    by (rule adaptive_table_range_checked) simp
  have h3: "marks_range_checked adaptive_table [3, 5, 0]"
    by (rule adaptive_table_range_checked) simp
  show ?thesis
    using h0 h1 h3 last_mark_preconditions [OF h0] last_mark_preconditions [OF h1]
      last_mark_preconditions [OF h3]
    by (simp add: getLastMarkRows_def getLastNonFinalMarkRows_def adaptive_table_simps
          unat_max_index)
qed

text \<open>
  The loop of \<^verbatim>\<open>getRowsCountInRanges\<close>, started with any value of the accumulator, when
  every call for a range returns.
\<close>

lemma getRowsCountInRanges_loop_sum:
  assumes "\<forall>r\<in>set ranges. \<exists>rows. getRowsCountInRange tbl s (range_begin r) (range_end r) = Inr rows"
  shows "getRowsCountInRanges_loop tbl s acc ranges =
         Inr (acc + (\<Sum>r\<leftarrow>ranges. projr (getRowsCountInRange tbl s (range_begin r) (range_end r))))"
  using assms
proof (induction ranges arbitrary: acc)
  case Nil
  then show ?case by simp
next
  case (Cons r ranges)
  from Cons.prems obtain rows
    where rows: "getRowsCountInRange tbl s (range_begin r) (range_end r) = Inr rows"
    by auto
  from Cons.prems have
    "\<forall>r\<in>set ranges. \<exists>rows. getRowsCountInRange tbl s (range_begin r) (range_end r) = Inr rows"
    by simp
  from Cons.IH [OF this, of "acc + rows"] rows show ?case
    by (simp add: getRowsCountInRange_MarkRange_def add.assoc)
qed

lemma unat_sum_list:
  "unat (sum_list (ws :: size_t list)) = (\<Sum>w\<leftarrow>ws. unat w) mod 2 ^ 64"
proof (induction ws)
  case Nil
  then show ?case by simp
next
  case (Cons w ws)
  have "unat (w + sum_list ws) = (unat w + unat (sum_list ws)) mod 2 ^ 64"
    by (simp add: unat_word_ariths)
  also have "\<dots> = (unat w + (\<Sum>w\<leftarrow>ws. unat w)) mod 2 ^ 64"
    by (simp add: Cons.IH mod_add_right_eq)
  finally show ?case by simp
qed

text \<open>
  Claim C8: on a table that answers every range within \<^verbatim>\<open>getMarksCount()\<close>, and for
  ranges whose bounds are within \<^verbatim>\<open>getMarksCount()\<close>, \<^verbatim>\<open>getRowsCountInRanges(ranges)\<close>
  returns the sum over the ranges of \<^verbatim>\<open>getRowsCountInRange(range.begin, range.end)\<close>.
  The sum is that of \<^verbatim>\<open>size_t\<close>: read as numbers, the sum of the answers modulo \<open>2 ^ 64\<close>.
  For the empty sequence the result is 0, and the overload for a \<^verbatim>\<open>MarkRange\<close> is the
  call with the begin and end of the range.
\<close>

theorem getRowsCountInRanges_sum:
  assumes "answers_ranges_within tbl s" and "\<forall>r\<in>set ranges. within_marks tbl s r"
  shows "getRowsCountInRanges tbl s ranges =
           Inr (\<Sum>r\<leftarrow>ranges. projr (getRowsCountInRange tbl s (range_begin r) (range_end r))) \<and>
         unat (projr (getRowsCountInRanges tbl s ranges)) =
           (\<Sum>r\<leftarrow>ranges. unat (projr (getRowsCountInRange tbl s (range_begin r) (range_end r))))
             mod 2 ^ 64 \<and>
         getRowsCountInRanges tbl s [] = Inr 0 \<and>
         (\<forall>r. getRowsCountInRange_MarkRange tbl s r =
               getRowsCountInRange tbl s (range_begin r) (range_end r))"
proof -
  have "\<forall>r\<in>set ranges. \<exists>rows. getRowsCountInRange tbl s (range_begin r) (range_end r) = Inr rows"
    using assms by (simp add: answers_ranges_within_def within_marks_def)
  then have total: "getRowsCountInRanges tbl s ranges =
      Inr (\<Sum>r\<leftarrow>ranges. projr (getRowsCountInRange tbl s (range_begin r) (range_end r)))"
    by (simp add: getRowsCountInRanges_def getRowsCountInRanges_loop_sum)
  have "unat (\<Sum>r\<leftarrow>ranges. projr (getRowsCountInRange tbl s (range_begin r) (range_end r))) =
      (\<Sum>r\<leftarrow>ranges. unat (projr (getRowsCountInRange tbl s (range_begin r) (range_end r))))
        mod 2 ^ 64"
    by (simp add: unat_sum_list comp_def)
  with total show ?thesis
    by (simp add: getRowsCountInRanges_def getRowsCountInRange_MarkRange_def)
qed

lemma adaptive_table_answers_ranges:
  "length marks < 2 ^ 64 \<Longrightarrow> answers_ranges_within adaptive_table marks"
  by (simp add: answers_ranges_within_def adaptive_table_simps word_le_nat_alt unat_of_nat)

text \<open>
  On the adaptive table with marks 3, 5 and a final mark: the ranges \<open>[0, 2)\<close> and
  \<open>[1, 3)\<close> overlap in mark 1 and cover 8 and 5 rows; the result is 13.
\<close>

theorem getRowsCountInRanges_sum_witness:
  "answers_ranges_within adaptive_table [3, 5, 0] \<and>
   within_marks adaptive_table [3, 5, 0] \<lparr>range_begin = 0, range_end = 2\<rparr> \<and>
   within_marks adaptive_table [3, 5, 0] \<lparr>range_begin = 1, range_end = 3\<rparr> \<and>
   getRowsCountInRange adaptive_table [3, 5, 0] 0 2 = Inr 8 \<and>
   getRowsCountInRange adaptive_table [3, 5, 0] 1 3 = Inr 5 \<and>
   getRowsCountInRanges adaptive_table [3, 5, 0]
     [\<lparr>range_begin = 0, range_end = 2\<rparr>, \<lparr>range_begin = 1, range_end = 3\<rparr>] = Inr 13"
proof -
  have h: "answers_ranges_within adaptive_table [3, 5, 0]"
    by (rule adaptive_table_answers_ranges) simp
  have w: "\<forall>r\<in>set [\<lparr>range_begin = 0, range_end = 2\<rparr>, \<lparr>range_begin = 1, range_end = 3\<rparr>].
             within_marks adaptive_table [3, 5, 0] r"
    by (simp add: within_marks_def adaptive_table_simps)
  show ?thesis
    using h w getRowsCountInRanges_sum [OF h w]
    by (simp add: adaptive_table_simps)
qed

section \<open>Properties of createMergeTreeIndexGranularity\<close>

text \<open>
  Claim C4, as the code has it. The factory returns the adaptive table without marks exactly
  when \<^verbatim>\<open>blocks_are_granules\<close> is set, or the part is compact, or the mark type is
  adaptive and \<^verbatim>\<open>use_const_adaptive_granularity\<close> is not set. In every other case it
  calls \<^verbatim>\<open>computeIndexGranularityForBlock\<close> with the rows and bytes of the block, the
  settings \<^verbatim>\<open>index_granularity_bytes\<close> and \<^verbatim>\<open>index_granularity\<close>,
  \<^verbatim>\<open>blocks_are_granules\<close> and the adaptive flag of the mark type; when that call does
  not divide by zero it returns the constant table made from the computed granularity,
  and when it does, no table is returned.
\<close>

theorem createMergeTreeIndexGranularity_choice:
  "(createMergeTreeIndexGranularity r b settings info bag = Inr MergeTreeIndexGranularityAdaptive) =
     (bag \<or> part_type (mark_type info) = Compact \<or>
      (adaptive (mark_type info) \<and> \<not> use_const_adaptive_granularity settings)) \<and>
   (\<not> (bag \<or> part_type (mark_type info) = Compact \<or>
       (adaptive (mark_type info) \<and> \<not> use_const_adaptive_granularity settings)) \<longrightarrow>
      (\<not> divides_by_zero r b (index_granularity_bytes settings) bag (adaptive (mark_type info)) \<longrightarrow>
         (\<exists>g. computeIndexGranularityForBlock r b (index_granularity_bytes settings)
                 (index_granularity settings) bag (adaptive (mark_type info)) = Inr g \<and>
              createMergeTreeIndexGranularity r b settings info bag =
                Inr (MergeTreeIndexGranularityConstant g))) \<and>
      (divides_by_zero r b (index_granularity_bytes settings) bag (adaptive (mark_type info)) \<longrightarrow>
         createMergeTreeIndexGranularity r b settings info bag = Inl DIVISION_BY_ZERO))"
proof -
  let ?adaptive_choice = "bag \<or> part_type (mark_type info) = Compact \<or>
      (adaptive (mark_type info) \<and> \<not> use_const_adaptive_granularity settings)"
  let ?compute = "computeIndexGranularityForBlock r b (index_granularity_bytes settings)
                 (index_granularity settings) bag (adaptive (mark_type info))"
  let ?dz = "divides_by_zero r b (index_granularity_bytes settings) bag (adaptive (mark_type info))"
  have fails: "?dz \<Longrightarrow> ?compute = Inl DIVISION_BY_ZERO"
    by (simp add: computeIndexGranularityForBlock_def index_granularity_for_block_fails)
  have returns: "\<not> ?dz \<Longrightarrow> \<exists>g. ?compute = Inr g"
  proof -
    assume "\<not> ?dz"
    then obtain g0 where "index_granularity_for_block r b (index_granularity_bytes settings)
                 (index_granularity settings) bag (adaptive (mark_type info)) = Inr g0"
      using index_granularity_for_block_returns by blast
    then show ?thesis
      by (simp add: computeIndexGranularityForBlock_def Let_def)
  qed
  have other: "\<not> ?adaptive_choice \<Longrightarrow>
      createMergeTreeIndexGranularity r b settings info bag =
        (case ?compute of Inl e \<Rightarrow> Inl e
         | Inr g \<Rightarrow> Inr (MergeTreeIndexGranularityConstant g))"
    by (auto simp: createMergeTreeIndexGranularity_def Let_def)
  have chosen: "?adaptive_choice \<Longrightarrow>
      createMergeTreeIndexGranularity r b settings info bag = Inr MergeTreeIndexGranularityAdaptive"
    by (auto simp: createMergeTreeIndexGranularity_def Let_def)
  have not_chosen: "\<not> ?adaptive_choice \<Longrightarrow>
      createMergeTreeIndexGranularity r b settings info bag \<noteq> Inr MergeTreeIndexGranularityAdaptive"
    using other by (cases ?compute) simp_all
  show ?thesis
  proof (intro conjI impI)
    show "(createMergeTreeIndexGranularity r b settings info bag = Inr MergeTreeIndexGranularityAdaptive)
          = ?adaptive_choice"
      using chosen not_chosen by blast
  next
    assume n: "\<not> ?adaptive_choice" and "\<not> ?dz"
    then obtain g where "?compute = Inr g" using returns by blast
    with other [OF n]
    show "\<exists>g. ?compute = Inr g \<and>
            createMergeTreeIndexGranularity r b settings info bag =
              Inr (MergeTreeIndexGranularityConstant g)"
      by simp
  next
    assume n: "\<not> ?adaptive_choice" and "?dz"
    with other [OF n] fails
    show "createMergeTreeIndexGranularity r b settings info bag = Inl DIVISION_BY_ZERO"
      by simp
  qed
qed

text \<open>
  With a wide part and an adaptive mark type: without \<^verbatim>\<open>use_const_adaptive_granularity\<close>
  the adaptive table; with it and a threshold of 100 bytes the constant table of
  granularity 10; with it and a threshold of 0 bytes the division by zero.
\<close>

theorem createMergeTreeIndexGranularity_choice_witness:
  "createMergeTreeIndexGranularity 100 1000
     \<lparr>index_granularity = 50, index_granularity_bytes = 100, use_const_adaptive_granularity = False\<rparr>
     \<lparr>mark_type = \<lparr>adaptive = True, part_type = Wide\<rparr>\<rparr> False
     = Inr MergeTreeIndexGranularityAdaptive \<and>
   \<not> divides_by_zero 100 1000 100 False True \<and>
   computeIndexGranularityForBlock 100 1000 100 50 False True = Inr 10 \<and>
   createMergeTreeIndexGranularity 100 1000
     \<lparr>index_granularity = 50, index_granularity_bytes = 100, use_const_adaptive_granularity = True\<rparr>
     \<lparr>mark_type = \<lparr>adaptive = True, part_type = Wide\<rparr>\<rparr> False
     = Inr (MergeTreeIndexGranularityConstant 10) \<and>
   divides_by_zero 100 1000 0 False True \<and>
   createMergeTreeIndexGranularity 100 1000
     \<lparr>index_granularity = 50, index_granularity_bytes = 0, use_const_adaptive_granularity = True\<rparr>
     \<lparr>mark_type = \<lparr>adaptive = True, part_type = Wide\<rparr>\<rparr> False
     = Inl DIVISION_BY_ZERO"
  using createMergeTreeIndexGranularity_choice [of 100 1000
      "\<lparr>index_granularity = 50, index_granularity_bytes = 100, use_const_adaptive_granularity = False\<rparr>"
      "\<lparr>mark_type = \<lparr>adaptive = True, part_type = Wide\<rparr>\<rparr>" False]
    createMergeTreeIndexGranularity_choice [of 100 1000
      "\<lparr>index_granularity = 50, index_granularity_bytes = 100, use_const_adaptive_granularity = True\<rparr>"
      "\<lparr>mark_type = \<lparr>adaptive = True, part_type = Wide\<rparr>\<rparr>" False]
    createMergeTreeIndexGranularity_choice [of 100 1000
      "\<lparr>index_granularity = 50, index_granularity_bytes = 0, use_const_adaptive_granularity = True\<rparr>"
      "\<lparr>mark_type = \<lparr>adaptive = True, part_type = Wide\<rparr>\<rparr>" False]
  by (simp add: createMergeTreeIndexGranularity_def divides_by_zero_def
        computeIndexGranularityForBlock_def index_granularity_for_block_def div_size_t_def)

text \<open>
  Claim C4 as stated fails: for a wide part with an adaptive mark type, with
  \<^verbatim>\<open>use_const_adaptive_granularity\<close> set and \<^verbatim>\<open>index_granularity_bytes = 0\<close>, the
  factory takes the second branch and line 97 divides 1000 by 0, so that no constant
  table is returned.
\<close>

theorem constant_table_not_made_counterexample:
  "createMergeTreeIndexGranularity 100 1000
     \<lparr>index_granularity = 50, index_granularity_bytes = 0, use_const_adaptive_granularity = True\<rparr>
     \<lparr>mark_type = \<lparr>adaptive = True, part_type = Wide\<rparr>\<rparr> False
     = Inl DIVISION_BY_ZERO"
  by (simp add: createMergeTreeIndexGranularity_def
        computeIndexGranularityForBlock_def index_granularity_for_block_def div_size_t_def)

end
